theory Spec2Isabelle
  imports Main "HOL-Library.Word"
begin

section \<open>Data model of \<^verbatim>\<open>security/tpm/tspi/tspi.c\<close>\<close>

type_synonym u8 = "8 word"
type_synonym u16 = "16 word"
type_synonym u32 = "32 word"

text \<open>
  Modelled from the spec: the \<^verbatim>\<open>TPM_*\<close> status macros live in a header that is not
  part of the source file. The spec enumerates the status space (success, IO error,
  invalid argument, hash error, read failure, invalid post-init, must-reboot, any other
  device or protocol error); the source only ever compares statuses for equality, so a
  status is a value of this enumeration. \<open>TPM_E_DEVICE c\<close> is any other code \<open>c\<close>.
\<close>

datatype status =
    TPM_SUCCESS
  | TPM_E_IOERROR
  | TPM_E_INVALID_ARG
  | TPM_E_HASH_ERROR
  | TPM_E_READ_FAILURE
  | TPM_E_INVALID_POSTINIT
  | TPM_E_MUST_REBOOT
  | TPM_E_DEVICE u32

text \<open>
  Modelled from the spec: \<^verbatim>\<open>enum vb2_hash_algorithm\<close> is declared by the hashing
  collaborator. The source names three selectors; every other value of the enum is
  \<open>VB2_HASH_OTHER n\<close>.
\<close>

datatype vb2_hash_algorithm =
    VB2_HASH_SHA1
  | VB2_HASH_SHA256
  | VB2_HASH_SHA512
  | VB2_HASH_OTHER nat

text \<open>
  The build-time configuration: the \<^verbatim>\<open>CONFIG(...)\<close> switches the file tests, and the
  macros of absent headers it uses (chunk buffer size, digest buffer size, the device's
  algorithm identifiers), taken as parameters.
\<close>

record config =
  TPM1 :: bool
  TPM2 :: bool
  TPM_DEACTIVATE :: bool
  TPM_STARTUP_IGNORE_POSTINIT :: bool
  VBOOT_MEASURED_BOOT :: bool
  HASH_DATA_CHUNK_SIZE :: nat
  TPM_PCR_MAX_LEN :: nat
  TPM_ALG_SHA1 :: u16
  TPM_ALG_SHA256 :: u16
  TPM_ALG_SHA512 :: u16

text \<open>
  Every call that leaves the file is recorded, in order, with its arguments:
  the TPM command transport (\<^verbatim>\<open>tlcl_*\<close>), the measurement log, the streaming hash,
  the region reads and the platform failure signal. Console output is not recorded.
\<close>

datatype event =
    Tlcl_lib_init
  | Tlcl_startup
  | Tlcl_resume
  | Tlcl_assert_physical_presence
  | Tlcl_physical_presence_cmd_enable
  | Tlcl_get_flags
  | Tlcl_set_enable
  | Tlcl_set_deactivated u8
  | Tlcl_force_clear
  | Tlcl_extend int u16 "u8 list" nat
  | Tcpa_log_add_table_entry "string option" int vb2_hash_algorithm "u8 list" nat
  | Vb2_digest_init vb2_hash_algorithm
  | Vb2_digest_extend "u8 list"
  | Vb2_digest_finalize nat
  | Rdev_readat nat nat
  | Post_code_TPM_FAILURE

text \<open>
  The collaborators are parameters. The TPM is a stateful device: each command maps the
  device state \<open>'w\<close> to a status and a new device state. The hash works on a context
  \<open>'c\<close>; its three operations return a C error code (non-zero is failure).
\<close>

record ('w, 'c) collab =
  tlcl_lib_init :: "'w \<Rightarrow> status \<times> 'w"
  tlcl_startup :: "'w \<Rightarrow> status \<times> 'w"
  tlcl_resume :: "'w \<Rightarrow> status \<times> 'w"
  tlcl_assert_physical_presence :: "'w \<Rightarrow> status \<times> 'w"
  tlcl_physical_presence_cmd_enable :: "'w \<Rightarrow> status \<times> 'w"
  tlcl_get_flags :: "'w \<Rightarrow> (status \<times> u8 \<times> u8) \<times> 'w"
  tlcl_set_enable :: "'w \<Rightarrow> status \<times> 'w"
  tlcl_set_deactivated :: "u8 \<Rightarrow> 'w \<Rightarrow> status \<times> 'w"
  tlcl_force_clear :: "'w \<Rightarrow> status \<times> 'w"
  tlcl_extend :: "int \<Rightarrow> u16 \<Rightarrow> u8 list \<Rightarrow> nat \<Rightarrow> 'w \<Rightarrow> status \<times> 'w"
  vb2_digest_size :: "vb2_hash_algorithm \<Rightarrow> nat"
  vb2_digest_init :: "vb2_hash_algorithm \<Rightarrow> int \<times> 'c"
  vb2_digest_extend :: "'c \<Rightarrow> u8 list \<Rightarrow> int \<times> 'c"
  vb2_digest_finalize :: "'c \<Rightarrow> nat \<Rightarrow> int \<times> u8 list"

text \<open>
  A region device exposes its size and a read at an offset. The size is a \<^verbatim>\<open>size_t\<close>,
  of 32 or 64 bits according to the target the file is built for; it is a natural number
  here, and no \<^verbatim>\<open>size_t\<close> operation of the file can overflow (the one subtraction
  is guarded by the loop condition). \<open>rdev_readat rd off len\<close> is the \<^verbatim>\<open>ssize_t\<close>
  the read returns (negative on failure) and the contents it leaves in the caller's
  buffer, of which the first \<open>len\<close> bytes are hashed.
\<close>

record region_device =
  region_device_sz :: nat
  rdev_readat :: "nat \<Rightarrow> nat \<Rightarrow> int \<times> u8 list"

record 'w state =
  dev :: 'w
  trace :: "event list"

definition emit :: "event \<Rightarrow> 'w state \<Rightarrow> 'w state" where
  "emit e s = s\<lparr>trace := trace s @ [e]\<rparr>"

definition dev_call :: "event \<Rightarrow> ('w \<Rightarrow> 'a \<times> 'w) \<Rightarrow> 'w state \<Rightarrow> 'a \<times> 'w state" where
  "dev_call e f s = (case f (dev s) of (r, w') \<Rightarrow> (r, \<lparr>dev = w', trace = trace s @ [e]\<rparr>))"

section \<open>The state reconciler of the older generation\<close>

text \<open>Lines 53 to 67: the comparison of \<open>deactivated\<close> with the compiled policy.\<close>

definition tpm1_deactivated_step ::
  "config \<Rightarrow> ('w, 'c) collab \<Rightarrow> u8 \<Rightarrow> status \<Rightarrow> 'w state \<Rightarrow> status \<times> 'w state" where
  "tpm1_deactivated_step cfg env deactivated result s =
     (if (deactivated \<noteq> 0) \<noteq> TPM_DEACTIVATE cfg then
        (let flag = (if deactivated = 0 then 1 else 0) in
         case dev_call (Tlcl_set_deactivated flag) (tlcl_set_deactivated env flag) s of
           (result, s1) \<Rightarrow>
             if result \<noteq> TPM_SUCCESS then (result, s1)
             else (TPM_E_MUST_REBOOT, s1))
      else (result, s))"

definition tpm1_invoke_state_machine ::
  "config \<Rightarrow> ('w, 'c) collab \<Rightarrow> 'w state \<Rightarrow> status \<times> 'w state" where
  "tpm1_invoke_state_machine cfg env s =
     (case dev_call Tlcl_get_flags (tlcl_get_flags env) s of
        ((result, disabled, deactivated), s1) \<Rightarrow>
          if result \<noteq> TPM_SUCCESS then (result, s1)
          else if disabled \<noteq> 0 then
            (case dev_call Tlcl_set_enable (tlcl_set_enable env) s1 of
               (result, s2) \<Rightarrow>
                 if result \<noteq> TPM_SUCCESS then (result, s2)
                 else tpm1_deactivated_step cfg env deactivated result s2)
          else tpm1_deactivated_step cfg env deactivated result s1)"

section \<open>The lifecycle controller\<close>

definition tpm_setup_s3_helper :: "('w, 'c) collab \<Rightarrow> 'w state \<Rightarrow> status \<times> 'w state" where
  "tpm_setup_s3_helper env s =
     (case dev_call Tlcl_resume (tlcl_resume env) s of
        (result, s1) \<Rightarrow>
          (case result of
             TPM_SUCCESS \<Rightarrow> (result, s1)
           | TPM_E_INVALID_POSTINIT \<Rightarrow> (TPM_SUCCESS, s1)
           | _ \<Rightarrow> (result, s1)))"

definition tpm_setup_epilogue :: "status \<Rightarrow> 'w state \<Rightarrow> status \<times> 'w state" where
  "tpm_setup_epilogue result s =
     (if result \<noteq> TPM_SUCCESS then (result, emit Post_code_TPM_FAILURE s)
      else (result, s))"

text \<open>
  Lines 154 to 178 of \<^verbatim>\<open>tpm_setup\<close>: the physical presence assertion with its one
  remediation, then the reconciler when \<^verbatim>\<open>CONFIG(TPM1)\<close>.
\<close>

definition tpm_setup_reconcile ::
  "config \<Rightarrow> ('w, 'c) collab \<Rightarrow> status \<Rightarrow> 'w state \<Rightarrow> status \<times> 'w state" where
  "tpm_setup_reconcile cfg env result s =
     (if TPM1 cfg then
        (case tpm1_invoke_state_machine cfg env s of
           (result, s1) \<Rightarrow> tpm_setup_epilogue result s1)
      else tpm_setup_epilogue result s)"

definition tpm_setup_presence ::
  "config \<Rightarrow> ('w, 'c) collab \<Rightarrow> 'w state \<Rightarrow> status \<times> 'w state" where
  "tpm_setup_presence cfg env s =
     (case dev_call Tlcl_assert_physical_presence (tlcl_assert_physical_presence env) s of
        (result, s1) \<Rightarrow>
          if result \<noteq> TPM_SUCCESS then
            (case dev_call Tlcl_physical_presence_cmd_enable
                    (tlcl_physical_presence_cmd_enable env) s1 of
               (result, s2) \<Rightarrow>
                 if result \<noteq> TPM_SUCCESS then tpm_setup_epilogue result s2
                 else
                   (case dev_call Tlcl_assert_physical_presence
                           (tlcl_assert_physical_presence env) s2 of
                      (result, s3) \<Rightarrow>
                        if result \<noteq> TPM_SUCCESS then tpm_setup_epilogue result s3
                        else tpm_setup_reconcile cfg env result s3))
          else tpm_setup_reconcile cfg env result s1)"

definition tpm_setup ::
  "config \<Rightarrow> ('w, 'c) collab \<Rightarrow> int \<Rightarrow> 'w state \<Rightarrow> status \<times> 'w state" where
  "tpm_setup cfg env s3flag s =
     (case dev_call Tlcl_lib_init (tlcl_lib_init env) s of
        (result, s1) \<Rightarrow>
          if result \<noteq> TPM_SUCCESS then tpm_setup_epilogue result s1
          else if s3flag \<noteq> 0 then
            (case tpm_setup_s3_helper env s1 of
               (result, s2) \<Rightarrow> tpm_setup_epilogue result s2)
          else
            (case dev_call Tlcl_startup (tlcl_startup env) s1 of
               (result, s2) \<Rightarrow>
                 (let result =
                    (if TPM_STARTUP_IGNORE_POSTINIT cfg \<and> result = TPM_E_INVALID_POSTINIT
                     then TPM_SUCCESS else result)
                  in if result \<noteq> TPM_SUCCESS then tpm_setup_epilogue result s2
                     else tpm_setup_presence cfg env s2)))"

definition tpm_clear_and_reenable ::
  "config \<Rightarrow> ('w, 'c) collab \<Rightarrow> 'w state \<Rightarrow> status \<times> 'w state" where
  "tpm_clear_and_reenable cfg env s =
     (case dev_call Tlcl_force_clear (tlcl_force_clear env) s of
        (result, s1) \<Rightarrow>
          if result \<noteq> TPM_SUCCESS then (result, s1)
          else if TPM1 cfg then
            (case dev_call Tlcl_set_enable (tlcl_set_enable env) s1 of
               (result, s2) \<Rightarrow>
                 if result \<noteq> TPM_SUCCESS then (result, s2)
                 else
                   (case dev_call (Tlcl_set_deactivated 0) (tlcl_set_deactivated env 0) s2 of
                      (result, s3) \<Rightarrow>
                        if result \<noteq> TPM_SUCCESS then (result, s3)
                        else (TPM_SUCCESS, s3)))
          else (TPM_SUCCESS, s1))"

section \<open>The PCR extension service\<close>

text \<open>
  The \<^verbatim>\<open>switch\<close> of lines 219 to 231, compiled in when \<^verbatim>\<open>CONFIG(TPM2)\<close>; without it
  \<open>algorithm\<close> keeps its initial value 0. \<open>None\<close> is the \<^verbatim>\<open>default\<close> branch.
\<close>

definition tpm_algorithm :: "config \<Rightarrow> vb2_hash_algorithm \<Rightarrow> u16 option" where
  "tpm_algorithm cfg digest_algo =
     (if TPM2 cfg then
        (case digest_algo of
           VB2_HASH_SHA1 \<Rightarrow> Some (TPM_ALG_SHA1 cfg)
         | VB2_HASH_SHA256 \<Rightarrow> Some (TPM_ALG_SHA256 cfg)
         | VB2_HASH_SHA512 \<Rightarrow> Some (TPM_ALG_SHA512 cfg)
         | VB2_HASH_OTHER n \<Rightarrow> None)
      else Some 0)"

definition tpm_extend_pcr ::
  "config \<Rightarrow> ('w, 'c) collab \<Rightarrow> int \<Rightarrow> vb2_hash_algorithm \<Rightarrow> u8 list option \<Rightarrow> nat \<Rightarrow>
     string option \<Rightarrow> 'w state \<Rightarrow> status \<times> 'w state" where
  "tpm_extend_pcr cfg env pcr digest_algo digest digest_len name s =
     (case digest of
        None \<Rightarrow> (TPM_E_IOERROR, s)
      | Some d \<Rightarrow>
          (case tpm_algorithm cfg digest_algo of
             None \<Rightarrow> (TPM_E_HASH_ERROR, s)
           | Some algorithm \<Rightarrow>
               (case dev_call (Tlcl_extend pcr algorithm d digest_len)
                       (tlcl_extend env pcr algorithm d digest_len) s of
                  (result, s1) \<Rightarrow>
                    if result \<noteq> TPM_SUCCESS then (result, s1)
                    else if VBOOT_MEASURED_BOOT cfg then
                      (TPM_SUCCESS,
                       emit (Tcpa_log_add_table_entry name pcr digest_algo d digest_len) s1)
                    else (TPM_SUCCESS, s1))))"

section \<open>The region measurement engine\<close>

text \<open>
  What \<^verbatim>\<open>tpm_measure_region\<close> can do when it stops: return a status, or fail
  the assertion of line 270. The \<^verbatim>\<open>assert\<close> macro is declared outside the file, so
  a failed assertion is an outcome of its own and nothing is said about what follows it.
\<close>

datatype outcome = Returns status | Assertion_fails

text \<open>Lines 263 to 267: the hash algorithm follows the TPM generation.\<close>

definition measure_hash_alg :: "config \<Rightarrow> vb2_hash_algorithm" where
  "measure_hash_alg cfg = (if TPM1 cfg then VB2_HASH_SHA1 else VB2_HASH_SHA256)"

text \<open>
  Line 269: \<^verbatim>\<open>digest_len\<close> is a \<^verbatim>\<open>uint8_t\<close>, so the size the hashing collaborator
  returns is truncated to eight bits.
\<close>

definition measure_digest_len :: "config \<Rightarrow> ('w, 'c) collab \<Rightarrow> nat" where
  "measure_digest_len cfg env = vb2_digest_size env (measure_hash_alg cfg) mod 256"

text \<open>\<^verbatim>\<open>len = MIN(sizeof(buf), region_device_sz(rdev) - offset)\<close>, for \<open>offset\<close> below the size.\<close>

definition chunk_len :: "config \<Rightarrow> region_device \<Rightarrow> u32 \<Rightarrow> nat" where
  "chunk_len cfg rd offset = min (HASH_DATA_CHUNK_SIZE cfg) (region_device_sz rd - unat offset)"

text \<open>
  The loop of lines 280 to 291. \<open>offset\<close> is a \<^verbatim>\<open>uint32_t\<close>: \<^verbatim>\<open>offset += len\<close>
  wraps modulo \<open>2^32\<close>, while the size it is compared with is a \<^verbatim>\<open>size_t\<close>. The loop
  need not end, so its result is an option: \<open>None\<close> is a loop that runs forever,
  \<open>Inl\<close> an early return with a status, \<open>Inr\<close> the hash context after the last chunk.
\<close>

partial_function (option) measure_loop ::
  "config \<Rightarrow> ('w, 'c) collab \<Rightarrow> region_device \<Rightarrow> u32 \<Rightarrow> 'c \<Rightarrow> 'w state \<Rightarrow>
     ((status + 'c) \<times> 'w state) option" where
  "measure_loop cfg env rd offset ctx s =
     (if unat offset < region_device_sz rd then
        (let len = chunk_len cfg rd offset;
             rc = fst (rdev_readat rd (unat offset) len);
             buf = snd (rdev_readat rd (unat offset) len);
             s1 = emit (Rdev_readat (unat offset) len) s
         in if rc < 0 then Some (Inl TPM_E_READ_FAILURE, s1)
            else
              (let hc = fst (vb2_digest_extend env ctx (take len buf));
                   ctx' = snd (vb2_digest_extend env ctx (take len buf));
                   s2 = emit (Vb2_digest_extend (take len buf)) s1
               in if hc \<noteq> 0 then Some (Inl TPM_E_HASH_ERROR, s2)
                  else measure_loop cfg env rd (offset + of_nat len) ctx' s2))
      else Some (Inr ctx, s))"

text \<open>Lines 292 to 302: finalize the hash and hand the digest to the extension service.\<close>

definition measure_finish ::
  "config \<Rightarrow> ('w, 'c) collab \<Rightarrow> int \<Rightarrow> string \<Rightarrow> vb2_hash_algorithm \<Rightarrow> nat \<Rightarrow> 'c \<Rightarrow>
     'w state \<Rightarrow> outcome \<times> 'w state" where
  "measure_finish cfg env pcr rname hash_alg digest_len ctx s =
     (case vb2_digest_finalize env ctx digest_len of
        (rc, digest) \<Rightarrow>
          (let s1 = emit (Vb2_digest_finalize digest_len) s
           in if rc \<noteq> 0 then (Returns TPM_E_HASH_ERROR, s1)
              else
                (case tpm_extend_pcr cfg env pcr hash_alg (Some digest) digest_len
                        (Some rname) s1 of
                   (result, s2) \<Rightarrow>
                     if result \<noteq> TPM_SUCCESS then (Returns result, s2)
                     else (Returns TPM_SUCCESS, s2))))"

definition tpm_measure_region ::
  "config \<Rightarrow> ('w, 'c) collab \<Rightarrow> region_device option \<Rightarrow> u8 \<Rightarrow> string option \<Rightarrow>
     'w state \<Rightarrow> (outcome \<times> 'w state) option" where
  "tpm_measure_region cfg env rdev pcr rname s =
     (case rdev of
        None \<Rightarrow> Some (Returns TPM_E_INVALID_ARG, s)
      | Some rd \<Rightarrow>
     (case rname of
        None \<Rightarrow> Some (Returns TPM_E_INVALID_ARG, s)
      | Some rn \<Rightarrow>
     (case dev_call Tlcl_lib_init (tlcl_lib_init env) s of
        (result, s1) \<Rightarrow>
          if result \<noteq> TPM_SUCCESS then Some (Returns result, s1)
          else
            (let hash_alg = measure_hash_alg cfg;
                 digest_len = measure_digest_len cfg env
             in if \<not> digest_len \<le> TPM_PCR_MAX_LEN cfg then Some (Assertion_fails, s1)
                else
                  (case vb2_digest_init env hash_alg of
                     (rc, ctx) \<Rightarrow>
                       (let s2 = emit (Vb2_digest_init hash_alg) s1
                        in if rc \<noteq> 0 then Some (Returns TPM_E_HASH_ERROR, s2)
                           else
                             (case measure_loop cfg env rd 0 ctx s2 of
                                None \<Rightarrow> None
                              | Some (Inl st, s3) \<Rightarrow> Some (Returns st, s3)
                              | Some (Inr ctx', s3) \<Rightarrow>
                                  Some (measure_finish cfg env (uint pcr) rn hash_alg
                                          digest_len ctx' s3))))))))"

section \<open>Vocabulary of the properties\<close>

text \<open>The events that are deactivate-toggle commands, region reads, and calls made only
  after the chunk loop (hash finalization, the extend command, the log entry).\<close>

fun is_toggle :: "event \<Rightarrow> bool" where
  "is_toggle (Tlcl_set_deactivated flag) = True"
| "is_toggle _ = False"

fun is_read :: "event \<Rightarrow> bool" where
  "is_read (Rdev_readat off len) = True"
| "is_read _ = False"


text \<open>The device's identifier of an accepted selector, and the identifier the extend
  command carries: the mapped one on the newer generation, 0 otherwise.\<close>

fun device_algorithm :: "config \<Rightarrow> vb2_hash_algorithm \<Rightarrow> u16" where
  "device_algorithm cfg VB2_HASH_SHA1 = TPM_ALG_SHA1 cfg"
| "device_algorithm cfg VB2_HASH_SHA256 = TPM_ALG_SHA256 cfg"
| "device_algorithm cfg VB2_HASH_SHA512 = TPM_ALG_SHA512 cfg"
| "device_algorithm cfg (VB2_HASH_OTHER n) = 0"

definition extend_algorithm :: "config \<Rightarrow> vb2_hash_algorithm \<Rightarrow> u16" where
  "extend_algorithm cfg alg = (if TPM2 cfg then device_algorithm cfg alg else 0)"

text \<open>Assumptions on the collaborators: the hash never fails to extend or to finalize;
  the hash depends on the bytes fed to it and not on how they are cut into chunks; the
  transport initializes, the digest fits its buffer and the hash context initializes; the
  region device holds \<open>data\<close> and every read inside it succeeds and delivers its bytes.\<close>

definition extend_ok :: "('w, 'c) collab \<Rightarrow> bool" where
  "extend_ok env \<longleftrightarrow> (\<forall>c bs. fst (vb2_digest_extend env c bs) = 0)"

definition finalize_ok :: "('w, 'c) collab \<Rightarrow> bool" where
  "finalize_ok env \<longleftrightarrow> (\<forall>c n. fst (vb2_digest_finalize env c n) = 0)"

definition streaming :: "('w, 'c) collab \<Rightarrow> bool" where
  "streaming env \<longleftrightarrow>
     (\<forall>c a b. snd (vb2_digest_extend env c (a @ b))
               = snd (vb2_digest_extend env (snd (vb2_digest_extend env c a)) b)) \<and>
     (\<forall>c. snd (vb2_digest_extend env c []) = c)"

definition measure_prologue_ok :: "config \<Rightarrow> ('w, 'c) collab \<Rightarrow> 'w state \<Rightarrow> bool" where
  "measure_prologue_ok cfg env s \<longleftrightarrow>
     fst (tlcl_lib_init env (dev s)) = TPM_SUCCESS \<and>
     measure_digest_len cfg env \<le> TPM_PCR_MAX_LEN cfg \<and>
     fst (vb2_digest_init env (measure_hash_alg cfg)) = 0"

definition rdev_holds :: "region_device \<Rightarrow> u8 list \<Rightarrow> bool" where
  "rdev_holds rd data \<longleftrightarrow>
     region_device_sz rd = length data \<and>
     (\<forall>off len. off + len \<le> length data \<longrightarrow>
        0 \<le> fst (rdev_readat rd off len) \<and>
        take len (snd (rdev_readat rd off len)) = take len (drop off data))"

text \<open>
  The read schedule as the specification words it: for a region of size \<open>S\<close> and chunk
  size \<open>C\<close>, the (offset, length) pairs from \<open>off\<close> on, each of length
  \<open>min C (S - offset)\<close>, each starting where the previous one ends.
\<close>

function chunks :: "nat \<Rightarrow> nat \<Rightarrow> nat \<Rightarrow> (nat \<times> nat) list" where
  "chunks C S off =
     (if off < S \<and> 0 < C then (off, min C (S - off)) # chunks C S (off + min C (S - off))
      else [])"
  by pat_completeness auto
termination
  by (relation "measure (\<lambda>(C, S, off). S - off)") auto

declare chunks.simps [simp del]

fun contiguous_from :: "nat \<Rightarrow> (nat \<times> nat) list \<Rightarrow> bool" where
  "contiguous_from off [] = True"
| "contiguous_from off ((off', len) # cks) = (off' = off \<and> contiguous_from (off + len) cks)"

definition chunk_data :: "u8 list \<Rightarrow> (nat \<times> nat) list \<Rightarrow> u8 list list" where
  "chunk_data data cks = map (\<lambda>(off, len). take len (drop off data)) cks"

definition chunk_events :: "u8 list \<Rightarrow> (nat \<times> nat) list \<Rightarrow> event list" where
  "chunk_events data cks =
     concat (map (\<lambda>(off, len).
       [Rdev_readat off len, Vb2_digest_extend (take len (drop off data))]) cks)"

text \<open>The hash context after a sequence of chunks, and the digest of a chunk sequence.\<close>

definition extend_all :: "('w, 'c) collab \<Rightarrow> 'c \<Rightarrow> u8 list list \<Rightarrow> 'c" where
  "extend_all env ctx pieces = foldl (\<lambda>c bs. snd (vb2_digest_extend env c bs)) ctx pieces"

definition hash_chunks ::
  "('w, 'c) collab \<Rightarrow> vb2_hash_algorithm \<Rightarrow> nat \<Rightarrow> u8 list list \<Rightarrow> u8 list" where
  "hash_chunks env alg digest_len pieces =
     snd (vb2_digest_finalize env
            (extend_all env (snd (vb2_digest_init env alg)) pieces) digest_len)"





section \<open>Concrete collaborators\<close>

text \<open>
  A device on which every command succeeds and that reports the given flags, with a toy
  hash whose context is the bytes seen so far and whose digest is their zero-padded
  prefix; regions backed by a byte list, one of them failing every read from an offset
  on, one of a given size holding zeros; two configurations, one per generation, with a
  chunk size of 4.
\<close>

definition ok_collab :: "u8 \<Rightarrow> u8 \<Rightarrow> (unit, u8 list) collab" where
  "ok_collab disabled deactivated =
     \<lparr>tlcl_lib_init = (\<lambda>w. (TPM_SUCCESS, w)),
      tlcl_startup = (\<lambda>w. (TPM_SUCCESS, w)),
      tlcl_resume = (\<lambda>w. (TPM_SUCCESS, w)),
      tlcl_assert_physical_presence = (\<lambda>w. (TPM_SUCCESS, w)),
      tlcl_physical_presence_cmd_enable = (\<lambda>w. (TPM_SUCCESS, w)),
      tlcl_get_flags = (\<lambda>w. ((TPM_SUCCESS, disabled, deactivated), w)),
      tlcl_set_enable = (\<lambda>w. (TPM_SUCCESS, w)),
      tlcl_set_deactivated = (\<lambda>flag w. (TPM_SUCCESS, w)),
      tlcl_force_clear = (\<lambda>w. (TPM_SUCCESS, w)),
      tlcl_extend = (\<lambda>pcr alg d n w. (TPM_SUCCESS, w)),
      vb2_digest_size =
        (\<lambda>alg. case alg of VB2_HASH_SHA1 \<Rightarrow> 20 | VB2_HASH_SHA256 \<Rightarrow> 32 | _ \<Rightarrow> 64),
      vb2_digest_init = (\<lambda>alg. (0, [])),
      vb2_digest_extend = (\<lambda>c bs. (0, c @ bs)),
      vb2_digest_finalize = (\<lambda>c n. (0, take n (c @ replicate n 0)))\<rparr>"

definition mem_rdev :: "u8 list \<Rightarrow> region_device" where
  "mem_rdev data =
     \<lparr>region_device_sz = length data,
      rdev_readat = (\<lambda>off len. (int len, take len (drop off data)))\<rparr>"

definition failing_rdev :: "u8 list \<Rightarrow> nat \<Rightarrow> region_device" where
  "failing_rdev data bad =
     \<lparr>region_device_sz = length data,
      rdev_readat =
        (\<lambda>off len. if off < bad then (int len, take len (drop off data)) else (- 1, []))\<rparr>"

definition zero_rdev :: "nat \<Rightarrow> region_device" where
  "zero_rdev n = \<lparr>region_device_sz = n, rdev_readat = (\<lambda>off len. (int len, replicate len 0))\<rparr>"

definition tpm1_config :: config where
  "tpm1_config = \<lparr>TPM1 = True, TPM2 = False, TPM_DEACTIVATE = False,
     TPM_STARTUP_IGNORE_POSTINIT = False, VBOOT_MEASURED_BOOT = True,
     HASH_DATA_CHUNK_SIZE = 4, TPM_PCR_MAX_LEN = 64,
     TPM_ALG_SHA1 = 4, TPM_ALG_SHA256 = 11, TPM_ALG_SHA512 = 13\<rparr>"

definition tpm2_config :: config where
  "tpm2_config = \<lparr>TPM1 = False, TPM2 = True, TPM_DEACTIVATE = False,
     TPM_STARTUP_IGNORE_POSTINIT = False, VBOOT_MEASURED_BOOT = True,
     HASH_DATA_CHUNK_SIZE = 4, TPM_PCR_MAX_LEN = 64,
     TPM_ALG_SHA1 = 4, TPM_ALG_SHA256 = 11, TPM_ALG_SHA512 = 13\<rparr>"

definition s0 :: "unit state" where
  "s0 = \<lparr>dev = (), trace = []\<rparr>"

definition ten_bytes :: "u8 list" where
  "ten_bytes = [1, 2, 3, 4, 5, 6, 7, 8, 9, 10]"

lemmas mock_defs = ok_collab_def tpm1_config_def tpm2_config_def s0_def

lemmas eval_defs = mock_defs mem_rdev_def failing_rdev_def zero_rdev_def ten_bytes_def
  chunk_len_def emit_def Let_def

section \<open>Calls and early returns\<close>

lemma dev_call_eq:
  "dev_call e f s = (fst (f (dev s)), \<lparr>dev = snd (f (dev s)), trace = trace s @ [e]\<rparr>)"
  by (simp add: dev_call_def split: prod.splits)

lemma s3_helper_eq:
  "tpm_setup_s3_helper env s =
     ((if fst (tlcl_resume env (dev s)) = TPM_E_INVALID_POSTINIT then TPM_SUCCESS
       else fst (tlcl_resume env (dev s))),
      \<lparr>dev = snd (tlcl_resume env (dev s)), trace = trace s @ [Tlcl_resume]\<rparr>)"
  by (cases "fst (tlcl_resume env (dev s))")
     (simp_all add: tpm_setup_s3_helper_def dev_call_eq)

lemma epilogue_eq:
  "tpm_setup_epilogue result s =
     (result, if result = TPM_SUCCESS then s else emit Post_code_TPM_FAILURE s)"
  by (simp add: tpm_setup_epilogue_def)

lemma extend_pcr_issued:
  assumes "tpm_algorithm cfg digest_algo = Some algorithm"
  shows "tpm_extend_pcr cfg env pcr digest_algo (Some d) digest_len name s =
     (fst (tlcl_extend env pcr algorithm d digest_len (dev s)),
      \<lparr>dev = snd (tlcl_extend env pcr algorithm d digest_len (dev s)),
         trace = trace s @ Tlcl_extend pcr algorithm d digest_len #
           (if fst (tlcl_extend env pcr algorithm d digest_len (dev s)) = TPM_SUCCESS
               \<and> VBOOT_MEASURED_BOOT cfg
            then [Tcpa_log_add_table_entry name pcr digest_algo d digest_len] else [])\<rparr>)"
  using assms by (simp add: tpm_extend_pcr_def dev_call_eq emit_def)

lemma tpm_algorithm_measure:
  "tpm_algorithm cfg (measure_hash_alg cfg) = Some (extend_algorithm cfg (measure_hash_alg cfg))"
  by (simp add: tpm_algorithm_def measure_hash_alg_def extend_algorithm_def)

section \<open>The state reconciler\<close>

text \<open>
  Claim C2 as worded fails: with a deactivated flag that differs from the policy, a
  device that reports disabled and refuses the enable command makes the reconciler return
  at line 49, before the comparison, and no deactivate-toggle command is issued.
\<close>

theorem reconcile_toggles_once_counterexample:
  "fst (tlcl_get_flags ((ok_collab 1 1)\<lparr>tlcl_set_enable := \<lambda>w. (TPM_E_IOERROR, w)\<rparr>) (dev s0))
     = (TPM_SUCCESS, 1, 1) \<and>
   ((1::u8) \<noteq> 0) \<noteq> TPM_DEACTIVATE tpm1_config \<and>
   tpm1_invoke_state_machine tpm1_config
       ((ok_collab 1 1)\<lparr>tlcl_set_enable := \<lambda>w. (TPM_E_IOERROR, w)\<rparr>) s0 =
     (TPM_E_IOERROR, \<lparr>dev = (), trace = [Tlcl_get_flags, Tlcl_set_enable]\<rparr>) \<and>
   filter is_toggle [Tlcl_get_flags, Tlcl_set_enable] = []"
  by (simp add: mock_defs tpm1_invoke_state_machine_def tpm1_deactivated_step_def dev_call_eq)

text \<open>
  Claim C2, amended. In the reconciler of the older generation, when the flags read
  succeeds and the enable command, issued if the device reports disabled, succeeds, a
  deactivated flag that differs from the compiled policy makes the reconciler issue
  exactly one deactivate-toggle command, with the negated flag; when that command
  succeeds the reconciler returns \<open>TPM_E_MUST_REBOOT\<close>, which is not
  \<open>TPM_SUCCESS\<close>, and when it fails the reconciler returns the command's status.
\<close>

theorem reconcile_toggles_once:
  assumes flags: "fst (tlcl_get_flags env (dev s)) = (TPM_SUCCESS, disabled, deactivated)"
    and differs: "(deactivated \<noteq> 0) \<noteq> TPM_DEACTIVATE cfg"
    and enabled: "disabled \<noteq> 0 \<longrightarrow>
           fst (tlcl_set_enable env (snd (tlcl_get_flags env (dev s)))) = TPM_SUCCESS"
  shows "let w1 = snd (tlcl_get_flags env (dev s));
             w2 = (if disabled \<noteq> 0 then snd (tlcl_set_enable env w1) else w1);
             flag = (if deactivated = 0 then 1 else 0);
             toggled = tlcl_set_deactivated env flag w2;
             r = tpm1_invoke_state_machine cfg env s
         in trace (snd r) =
              trace s @ [Tlcl_get_flags] @ (if disabled \<noteq> 0 then [Tlcl_set_enable] else [])
                @ [Tlcl_set_deactivated flag]
          \<and> length (filter is_toggle (drop (length (trace s)) (trace (snd r)))) = 1
          \<and> dev (snd r) = snd toggled
          \<and> (fst toggled = TPM_SUCCESS \<longrightarrow>
                fst r = TPM_E_MUST_REBOOT \<and> fst r \<noteq> TPM_SUCCESS)
          \<and> (fst toggled \<noteq> TPM_SUCCESS \<longrightarrow> fst r = fst toggled)"
  using assms
  by (cases "tlcl_get_flags env (dev s)")
     (simp add: tpm1_invoke_state_machine_def tpm1_deactivated_step_def dev_call_eq Let_def)

theorem reconcile_toggles_once_witness:
  "fst (tlcl_get_flags (ok_collab 1 1) (dev s0)) = (TPM_SUCCESS, 1, 1) \<and>
   ((1::u8) \<noteq> 0) \<noteq> TPM_DEACTIVATE tpm1_config \<and>
   fst (tlcl_set_enable (ok_collab 1 1) (snd (tlcl_get_flags (ok_collab 1 1) (dev s0))))
     = TPM_SUCCESS \<and>
   fst (tlcl_set_deactivated (ok_collab 1 1) 0 ()) = TPM_SUCCESS \<and>
   tpm1_invoke_state_machine tpm1_config (ok_collab 1 1) s0 =
     (TPM_E_MUST_REBOOT,
      \<lparr>dev = (), trace = [Tlcl_get_flags, Tlcl_set_enable, Tlcl_set_deactivated 0]\<rparr>) \<and>
   fst (tlcl_set_deactivated
          ((ok_collab 0 1)\<lparr>tlcl_set_deactivated := \<lambda>flag w. (TPM_E_IOERROR, w)\<rparr>) 0 ())
     \<noteq> TPM_SUCCESS \<and>
   tpm1_invoke_state_machine tpm1_config
       ((ok_collab 0 1)\<lparr>tlcl_set_deactivated := \<lambda>flag w. (TPM_E_IOERROR, w)\<rparr>) s0 =
     (TPM_E_IOERROR, \<lparr>dev = (), trace = [Tlcl_get_flags, Tlcl_set_deactivated 0]\<rparr>)"
  using reconcile_toggles_once [of "ok_collab 1 1" s0 1 1 tpm1_config]
    reconcile_toggles_once
      [of "(ok_collab 0 1)\<lparr>tlcl_set_deactivated := \<lambda>flag w. (TPM_E_IOERROR, w)\<rparr>" s0 0 1
          tpm1_config]
  by (simp add: mock_defs prod_eq_iff Let_def)

text \<open>
  Claim C3 as worded fails: with a deactivated flag that matches the policy, a device
  that reports disabled still receives the enable command, which changes its state.
\<close>

theorem reconcile_matching_counterexample:
  "fst (tlcl_get_flags (ok_collab 1 0) (dev s0)) = (TPM_SUCCESS, 1, 0) \<and>
   ((0::u8) \<noteq> 0) = TPM_DEACTIVATE tpm1_config \<and>
   Tlcl_set_enable \<in> set (trace (snd (tpm1_invoke_state_machine tpm1_config (ok_collab 1 0) s0)))"
  by (simp add: mock_defs tpm1_invoke_state_machine_def tpm1_deactivated_step_def dev_call_eq)

text \<open>
  Claim C3, amended. In the reconciler of the older generation, when the flags are read
  and the deactivated flag matches the compiled policy, no deactivate-toggle command is
  issued; if the device is not disabled the reconciler issues no call after the flags
  read and returns \<open>TPM_SUCCESS\<close>; if the device is disabled it issues exactly the
  enable command and returns that command's status.
\<close>

theorem reconcile_matching:
  assumes flags: "fst (tlcl_get_flags env (dev s)) = (TPM_SUCCESS, disabled, deactivated)"
    and matches: "(deactivated \<noteq> 0) = TPM_DEACTIVATE cfg"
  shows "let w1 = snd (tlcl_get_flags env (dev s));
             r = tpm1_invoke_state_machine cfg env s
         in filter is_toggle (drop (length (trace s)) (trace (snd r))) = []
          \<and> (disabled = 0 \<longrightarrow>
                r = (TPM_SUCCESS, \<lparr>dev = w1, trace = trace s @ [Tlcl_get_flags]\<rparr>))
          \<and> (disabled \<noteq> 0 \<longrightarrow>
                r = (fst (tlcl_set_enable env w1),
                     \<lparr>dev = snd (tlcl_set_enable env w1),
                        trace = trace s @ [Tlcl_get_flags, Tlcl_set_enable]\<rparr>))"
  using assms
  by (cases "tlcl_get_flags env (dev s)")
     (simp add: tpm1_invoke_state_machine_def tpm1_deactivated_step_def dev_call_eq Let_def)

theorem reconcile_matching_witness:
  "fst (tlcl_get_flags (ok_collab 0 0) (dev s0)) = (TPM_SUCCESS, 0, 0) \<and>
   ((0::u8) \<noteq> 0) = TPM_DEACTIVATE tpm1_config \<and>
   tpm1_invoke_state_machine tpm1_config (ok_collab 0 0) s0 =
     (TPM_SUCCESS, \<lparr>dev = (), trace = [Tlcl_get_flags]\<rparr>) \<and>
   fst (tlcl_get_flags (ok_collab 1 0) (dev s0)) = (TPM_SUCCESS, 1, 0) \<and>
   tpm1_invoke_state_machine tpm1_config (ok_collab 1 0) s0 =
     (TPM_SUCCESS, \<lparr>dev = (), trace = [Tlcl_get_flags, Tlcl_set_enable]\<rparr>)"
  using reconcile_matching [of "ok_collab 0 0" s0 0 0 tpm1_config]
    reconcile_matching [of "ok_collab 1 0" s0 1 0 tpm1_config]
  by (simp add: mock_defs Let_def)

section \<open>The resume path of the lifecycle controller\<close>

text \<open>
  Claim C4. When \<^verbatim>\<open>tpm_setup\<close> is called with the resuming flag set and the transport
  initializes, the calls it issues are the transport initialization, the resume command
  and, on a failure, the platform failure signal: the startup command, the physical
  presence assertion and its remediation, and the reconciler's commands are not issued.
\<close>

theorem setup_resume_only:
  assumes "s3flag \<noteq> 0"
    and "fst (tlcl_lib_init env (dev s)) = TPM_SUCCESS"
  shows "trace (snd (tpm_setup cfg env s3flag s)) =
           trace s @ [Tlcl_lib_init, Tlcl_resume] @
             (if fst (tpm_setup cfg env s3flag s) = TPM_SUCCESS then []
              else [Post_code_TPM_FAILURE])"
  using assms
  by (simp add: tpm_setup_def s3_helper_eq epilogue_eq dev_call_eq emit_def)

theorem setup_resume_only_witness:
  "(1::int) \<noteq> 0 \<and> fst (tlcl_lib_init (ok_collab 0 0) (dev s0)) = TPM_SUCCESS \<and>
   trace (snd (tpm_setup tpm1_config (ok_collab 0 0) 1 s0)) = [Tlcl_lib_init, Tlcl_resume]"
  using setup_resume_only [of 1 "ok_collab 0 0" s0 tpm1_config]
  by (simp add: mock_defs tpm_setup_def s3_helper_eq epilogue_eq dev_call_eq emit_def)

section \<open>The PCR extension service\<close>

text \<open>
  Claim C5. A call of \<^verbatim>\<open>tpm_extend_pcr\<close> with an absent digest returns
  \<open>TPM_E_IOERROR\<close> and leaves the device and the trace as they were, whatever the
  other arguments and the configuration are.
\<close>

theorem extend_pcr_absent_digest:
  "tpm_extend_pcr cfg env pcr digest_algo None digest_len name s = (TPM_E_IOERROR, s)"
  by (simp add: tpm_extend_pcr_def)

theorem extend_pcr_absent_digest_witness:
  "tpm_extend_pcr tpm2_config (ok_collab 0 0) 0 VB2_HASH_SHA256 None 32 (Some ''rom'') s0
     = (TPM_E_IOERROR, \<lparr>dev = (), trace = []\<rparr>)"
  using extend_pcr_absent_digest [of tpm2_config "ok_collab 0 0" 0 VB2_HASH_SHA256 32
      "Some ''rom''" s0]
  by (simp add: s0_def)

text \<open>
  Claim C6 as worded fails: on the newer generation a call with an unrecognized
  selector and an absent digest returns the IO error of line 216, not a hash error.
\<close>

theorem extend_pcr_algorithm_counterexample:
  "TPM2 tpm2_config \<and>
   VB2_HASH_OTHER 0 \<notin> {VB2_HASH_SHA1, VB2_HASH_SHA256, VB2_HASH_SHA512} \<and>
   fst (tpm_extend_pcr tpm2_config (ok_collab 0 0) 0 (VB2_HASH_OTHER 0) None 32 (Some ''rom'') s0)
     \<noteq> TPM_E_HASH_ERROR"
  by (simp add: mock_defs tpm_extend_pcr_def)

text \<open>
  Claim C6, amended. On the newer generation a call of \<^verbatim>\<open>tpm_extend_pcr\<close> with a
  present digest and a selector other than SHA-1, SHA-256 and SHA-512 returns
  \<open>TPM_E_HASH_ERROR\<close> and leaves the device and the trace as they were; with one of
  the three selectors the first call it issues is the extend command carrying the
  device's identifier of that selector. On the older generation the extend command is
  issued for every selector and carries the identifier 0.
\<close>

theorem extend_pcr_algorithm:
  "(TPM2 cfg \<and> digest_algo \<notin> {VB2_HASH_SHA1, VB2_HASH_SHA256, VB2_HASH_SHA512} \<longrightarrow>
      tpm_extend_pcr cfg env pcr digest_algo (Some d) digest_len name s = (TPM_E_HASH_ERROR, s))
   \<and> (TPM2 cfg \<and> digest_algo \<in> {VB2_HASH_SHA1, VB2_HASH_SHA256, VB2_HASH_SHA512} \<longrightarrow>
      take 1 (drop (length (trace s))
        (trace (snd (tpm_extend_pcr cfg env pcr digest_algo (Some d) digest_len name s))))
      = [Tlcl_extend pcr (device_algorithm cfg digest_algo) d digest_len])
   \<and> (\<not> TPM2 cfg \<longrightarrow>
      take 1 (drop (length (trace s))
        (trace (snd (tpm_extend_pcr cfg env pcr digest_algo (Some d) digest_len name s))))
      = [Tlcl_extend pcr 0 d digest_len])"
  by (cases digest_algo) (simp_all add: extend_pcr_issued tpm_algorithm_def,
      simp_all add: tpm_extend_pcr_def tpm_algorithm_def)

theorem extend_pcr_algorithm_witness:
  "TPM2 tpm2_config \<and> VB2_HASH_OTHER 7 \<notin> {VB2_HASH_SHA1, VB2_HASH_SHA256, VB2_HASH_SHA512} \<and>
   tpm_extend_pcr tpm2_config (ok_collab 0 0) 0 (VB2_HASH_OTHER 7) (Some [1, 2]) 2 None s0
     = (TPM_E_HASH_ERROR, s0) \<and>
   VB2_HASH_SHA256 \<in> {VB2_HASH_SHA1, VB2_HASH_SHA256, VB2_HASH_SHA512} \<and>
   trace (snd (tpm_extend_pcr tpm2_config (ok_collab 0 0) 0 VB2_HASH_SHA256 (Some [1, 2]) 2 None s0))
     = [Tlcl_extend 0 11 [1, 2] 2, Tcpa_log_add_table_entry None 0 VB2_HASH_SHA256 [1, 2] 2] \<and>
   \<not> TPM2 tpm1_config \<and>
   trace (snd (tpm_extend_pcr tpm1_config (ok_collab 0 0) 0 (VB2_HASH_OTHER 7) (Some [1, 2]) 2 None s0))
     = [Tlcl_extend 0 0 [1, 2] 2, Tcpa_log_add_table_entry None 0 (VB2_HASH_OTHER 7) [1, 2] 2]"
  using extend_pcr_algorithm [of tpm2_config "VB2_HASH_OTHER 7" "ok_collab 0 0" 0 "[1, 2]" 2 None s0]
    extend_pcr_algorithm [of tpm2_config VB2_HASH_SHA256 "ok_collab 0 0" 0 "[1, 2]" 2 None s0]
    extend_pcr_algorithm [of tpm1_config "VB2_HASH_OTHER 7" "ok_collab 0 0" 0 "[1, 2]" 2 None s0]
  by (simp add: mock_defs tpm_extend_pcr_def tpm_algorithm_def dev_call_eq emit_def)

section \<open>The chunk loop\<close>

lemma measure_loop_done:
  "\<not> unat offset < region_device_sz rd \<Longrightarrow> measure_loop cfg env rd offset ctx s = Some (Inr ctx, s)"
  by (subst measure_loop.simps) simp

lemma measure_loop_read_fails:
  "unat offset < region_device_sz rd \<Longrightarrow>
   fst (rdev_readat rd (unat offset) (chunk_len cfg rd offset)) < 0 \<Longrightarrow>
   measure_loop cfg env rd offset ctx s =
     Some (Inl TPM_E_READ_FAILURE, emit (Rdev_readat (unat offset) (chunk_len cfg rd offset)) s)"
  by (subst measure_loop.simps) (simp add: Let_def)

lemma measure_loop_extend_fails:
  "unat offset < region_device_sz rd \<Longrightarrow>
   0 \<le> fst (rdev_readat rd (unat offset) (chunk_len cfg rd offset)) \<Longrightarrow>
   fst (vb2_digest_extend env ctx
          (take (chunk_len cfg rd offset)
             (snd (rdev_readat rd (unat offset) (chunk_len cfg rd offset))))) \<noteq> 0 \<Longrightarrow>
   measure_loop cfg env rd offset ctx s =
     Some (Inl TPM_E_HASH_ERROR,
       emit (Vb2_digest_extend
          (take (chunk_len cfg rd offset)
             (snd (rdev_readat rd (unat offset) (chunk_len cfg rd offset)))))
          (emit (Rdev_readat (unat offset) (chunk_len cfg rd offset)) s))"
  by (subst measure_loop.simps) (simp add: Let_def)

lemma measure_loop_step:
  "unat offset < region_device_sz rd \<Longrightarrow>
   0 \<le> fst (rdev_readat rd (unat offset) (chunk_len cfg rd offset)) \<Longrightarrow>
   fst (vb2_digest_extend env ctx
          (take (chunk_len cfg rd offset)
             (snd (rdev_readat rd (unat offset) (chunk_len cfg rd offset))))) = 0 \<Longrightarrow>
   measure_loop cfg env rd offset ctx s =
     measure_loop cfg env rd (offset + of_nat (chunk_len cfg rd offset))
       (snd (vb2_digest_extend env ctx
          (take (chunk_len cfg rd offset)
             (snd (rdev_readat rd (unat offset) (chunk_len cfg rd offset))))))
       (emit (Vb2_digest_extend
          (take (chunk_len cfg rd offset)
             (snd (rdev_readat rd (unat offset) (chunk_len cfg rd offset)))))
          (emit (Rdev_readat (unat offset) (chunk_len cfg rd offset)) s))"
  by (subst measure_loop.simps) (simp add: Let_def)

lemma offset_advance:
  "unat offset + len < 2 ^ 32 \<Longrightarrow> unat (offset + of_nat len :: u32) = unat offset + len"
  by (simp add: unat_word_ariths unat_of_nat)

lemma measure_loop_returns:
  assumes "region_device_sz rd < 2 ^ 32" and "0 < HASH_DATA_CHUNK_SIZE cfg"
  shows "\<exists>r. measure_loop cfg env rd offset ctx s = Some r"
proof (induction "region_device_sz rd - unat offset" arbitrary: offset ctx s rule: less_induct)
  case less
  let ?len = "chunk_len cfg rd offset"
  let ?rd = "rdev_readat rd (unat offset) ?len"
  let ?ext = "vb2_digest_extend env ctx (take ?len (snd ?rd))"
  show ?case
  proof (cases "unat offset < region_device_sz rd")
    case False
    then show ?thesis by (simp add: measure_loop_done)
  next
    case True
    have len: "1 \<le> ?len" "unat offset + ?len \<le> region_device_sz rd"
      using True assms(2) by (simp_all add: chunk_len_def)
    then have adv: "unat (offset + of_nat ?len) = unat offset + ?len"
      using assms(1) by (intro offset_advance) simp
    show ?thesis
    proof (cases "fst ?rd < 0")
      case True
      with \<open>unat offset < region_device_sz rd\<close> show ?thesis
        by (simp add: measure_loop_read_fails)
    next
      case False
      show ?thesis
      proof (cases "fst ?ext = 0")
        case True
        have "region_device_sz rd - unat (offset + of_nat ?len) < region_device_sz rd - unat offset"
          using len \<open>unat offset < region_device_sz rd\<close> adv by simp
        from less [OF this] obtain r where
          "measure_loop cfg env rd (offset + of_nat ?len) (snd ?ext)
             (emit (Vb2_digest_extend (take ?len (snd ?rd))) (emit (Rdev_readat (unat offset) ?len) s)) = Some r"
          by blast
        then show ?thesis
          using measure_loop_step [of offset rd cfg env ctx s] True False
            \<open>unat offset < region_device_sz rd\<close> by simp
      next
        case hc: False
        show ?thesis
          using \<open>unat offset < region_device_sz rd\<close> False hc
          by (subst measure_loop.simps) (simp add: Let_def)
      qed
    qed
  qed
qed

lemma chunks_step:
  "off < S \<Longrightarrow> 0 < C \<Longrightarrow>
   chunks C S off = (off, min C (S - off)) # chunks C S (off + min C (S - off))"
  by (subst chunks.simps) simp

lemma chunks_done: "\<not> off < S \<Longrightarrow> chunks C S off = []"
  by (subst chunks.simps) simp

lemma chunks_contiguous: "contiguous_from off (chunks C S off)"
  by (induction C S off rule: chunks.induct) (subst chunks.simps, simp)

lemma chunks_sum: "0 < C \<Longrightarrow> off \<le> S \<Longrightarrow> sum_list (map snd (chunks C S off)) = S - off"
proof (induction C S off rule: chunks.induct)
  case (1 C S off)
  show ?case
  proof (cases "off < S")
    case True
    with 1 show ?thesis by (simp add: chunks_step)
  next
    case False
    with 1 show ?thesis by (simp add: chunks_done)
  qed
qed

lemma chunks_len:
  "(off', len) \<in> set (chunks C S off) \<Longrightarrow> len = min C (S - off') \<and> 1 \<le> len \<and> off' + len \<le> S"
proof (induction C S off rule: chunks.induct)
  case (1 C S off)
  show ?case
  proof (cases "off < S \<and> 0 < C")
    case True
    with 1 show ?thesis by (auto simp add: chunks_step)
  next
    case False
    with 1 show ?thesis by (subst (asm) chunks.simps) simp
  qed
qed

lemma chunks_concat:
  "0 < C \<Longrightarrow> off \<le> length data \<Longrightarrow>
   concat (chunk_data data (chunks C (length data) off)) = drop off data"
proof (induction C "length data" off rule: chunks.induct)
  case (1 C off)
  show ?case
  proof (cases "off < length data")
    case True
    have "take (min C (length data - off)) (drop off data)
            @ drop (off + min C (length data - off)) data = drop off data"
      by (metis add.commute append_take_drop_id drop_drop)
    with 1 True show ?thesis by (simp add: chunks_step chunk_data_def)
  next
    case False
    with 1 show ?thesis by (simp add: chunks_done chunk_data_def)
  qed
qed

lemma measure_loop_reads_all:
  assumes holds: "rdev_holds rd data" and small: "length data < 2 ^ 32"
    and pos: "0 < HASH_DATA_CHUNK_SIZE cfg" and ext: "extend_ok env"
  shows "measure_loop cfg env rd offset ctx s =
     Some (Inr (extend_all env ctx
                  (chunk_data data (chunks (HASH_DATA_CHUNK_SIZE cfg) (length data) (unat offset)))),
           s\<lparr>trace := trace s @
                chunk_events data (chunks (HASH_DATA_CHUNK_SIZE cfg) (length data) (unat offset))\<rparr>)"
proof (induction "length data - unat offset" arbitrary: offset ctx s rule: less_induct)
  case less
  let ?C = "HASH_DATA_CHUNK_SIZE cfg"
  have sz: "region_device_sz rd = length data"
    using holds by (simp add: rdev_holds_def)
  show ?case
  proof (cases "unat offset < length data")
    case False
    then show ?thesis
      by (simp add: measure_loop_done sz chunks_done chunk_data_def chunk_events_def extend_all_def)
  next
    case True
    let ?len = "chunk_len cfg rd offset"
    let ?buf = "take ?len (snd (rdev_readat rd (unat offset) ?len))"
    have len_eq: "?len = min ?C (length data - unat offset)"
      by (simp add: chunk_len_def sz)
    have len: "1 \<le> ?len" "unat offset + ?len \<le> length data"
      using True pos by (simp_all add: len_eq)
    have adv: "unat (offset + of_nat ?len) = unat offset + ?len"
      using len small by (intro offset_advance) simp
    have rd_ok: "0 \<le> fst (rdev_readat rd (unat offset) ?len)"
      and buf: "?buf = take ?len (drop (unat offset) data)"
      using holds len by (simp_all add: rdev_holds_def)
    have hc: "fst (vb2_digest_extend env ctx ?buf) = 0"
      using ext by (simp add: extend_ok_def)
    have ck: "chunks ?C (length data) (unat offset) =
                (unat offset, ?len) # chunks ?C (length data) (unat offset + ?len)"
      using True pos by (simp add: chunks_step len_eq)
    have "length data - unat (offset + of_nat ?len) < length data - unat offset"
      using len True adv by simp
    note IH = less [OF this, unfolded adv]
    have "measure_loop cfg env rd offset ctx s =
            measure_loop cfg env rd (offset + of_nat ?len) (snd (vb2_digest_extend env ctx ?buf))
              (emit (Vb2_digest_extend ?buf) (emit (Rdev_readat (unat offset) ?len) s))"
      using True rd_ok hc by (simp add: measure_loop_step sz)
    then show ?thesis
      by (simp add: IH ck chunk_data_def chunk_events_def extend_all_def emit_def buf)
  qed
qed

lemma measure_loop_schedule:
  assumes small: "region_device_sz rd < 2 ^ 32" and pos: "0 < HASH_DATA_CHUNK_SIZE cfg"
  shows "\<exists>r evs k. measure_loop cfg env rd offset ctx s = Some (r, s\<lparr>trace := trace s @ evs\<rparr>) \<and>
           k \<le> length (chunks (HASH_DATA_CHUNK_SIZE cfg) (region_device_sz rd) (unat offset)) \<and>
           filter is_read evs =
             map (\<lambda>(off, len). Rdev_readat off len)
               (take k (chunks (HASH_DATA_CHUNK_SIZE cfg) (region_device_sz rd) (unat offset))) \<and>
           ((\<exists>ctx'. r = Inr ctx') \<longrightarrow>
              k = length (chunks (HASH_DATA_CHUNK_SIZE cfg) (region_device_sz rd) (unat offset))) \<and>
           ((\<exists>st. r = Inl st) \<longrightarrow> 1 \<le> k)"
proof (induction "region_device_sz rd - unat offset" arbitrary: offset ctx s rule: less_induct)
  case less
  let ?C = "HASH_DATA_CHUNK_SIZE cfg" and ?S = "region_device_sz rd"
  let ?len = "chunk_len cfg rd offset"
  let ?rd = "rdev_readat rd (unat offset) ?len"
  let ?buf = "take ?len (snd ?rd)"
  let ?ext = "vb2_digest_extend env ctx ?buf"
  let ?s1 = "emit (Rdev_readat (unat offset) ?len) s"
  let ?s2 = "emit (Vb2_digest_extend ?buf) ?s1"
  show ?case
  proof (cases "unat offset < ?S")
    case False
    have "measure_loop cfg env rd offset ctx s = Some (Inr ctx, s\<lparr>trace := trace s @ []\<rparr>)"
      using False by (simp add: measure_loop_done)
    moreover have "chunks ?C ?S (unat offset) = []"
      using False by (simp add: chunks_done)
    ultimately show ?thesis
      by (intro exI [of _ "Inr ctx"] exI [of _ "[]"] exI [of _ 0]) simp
  next
    case True
    have len: "1 \<le> ?len" "unat offset + ?len \<le> ?S"
      using True pos by (simp_all add: chunk_len_def)
    have adv: "unat (offset + of_nat ?len) = unat offset + ?len"
      using len small by (intro offset_advance) simp
    have ck: "chunks ?C ?S (unat offset) =
                (unat offset, ?len) # chunks ?C ?S (unat offset + ?len)"
      using True pos by (simp add: chunks_step chunk_len_def)
    show ?thesis
    proof (cases "fst ?rd < 0")
      case True
      have "measure_loop cfg env rd offset ctx s =
              Some (Inl TPM_E_READ_FAILURE, s\<lparr>trace := trace s @ [Rdev_readat (unat offset) ?len]\<rparr>)"
        using True \<open>unat offset < ?S\<close> by (simp add: measure_loop_read_fails emit_def)
      then show ?thesis
        by (intro exI [of _ "Inl TPM_E_READ_FAILURE"] exI [of _ "[Rdev_readat (unat offset) ?len]"]
            exI [of _ 1]) (simp add: ck)
    next
      case rd_ok: False
      show ?thesis
      proof (cases "fst ?ext = 0")
        case False
        have "measure_loop cfg env rd offset ctx s =
                Some (Inl TPM_E_HASH_ERROR,
                  s\<lparr>trace := trace s @ [Rdev_readat (unat offset) ?len, Vb2_digest_extend ?buf]\<rparr>)"
          using False rd_ok \<open>unat offset < ?S\<close> by (simp add: measure_loop_extend_fails emit_def)
        then show ?thesis
          by (intro exI [of _ "Inl TPM_E_HASH_ERROR"]
              exI [of _ "[Rdev_readat (unat offset) ?len, Vb2_digest_extend ?buf]"]
              exI [of _ 1]) (simp add: ck)
      next
        case True
        have step: "measure_loop cfg env rd offset ctx s =
                measure_loop cfg env rd (offset + of_nat ?len) (snd ?ext) ?s2"
          using True rd_ok \<open>unat offset < ?S\<close> by (simp add: measure_loop_step)
        have "?S - unat (offset + of_nat ?len) < ?S - unat offset"
          using len \<open>unat offset < ?S\<close> adv by simp
        from less [OF this, of "snd ?ext" ?s2, unfolded adv] obtain r evs k where
          run: "measure_loop cfg env rd (offset + of_nat ?len) (snd ?ext) ?s2 =
                  Some (r, ?s2\<lparr>trace := trace ?s2 @ evs\<rparr>)"
          and k: "k \<le> length (chunks ?C ?S (unat offset + ?len))"
          and reads: "filter is_read evs =
             map (\<lambda>(off, len). Rdev_readat off len) (take k (chunks ?C ?S (unat offset + ?len)))"
          and full: "(\<exists>ctx'. r = Inr ctx') \<longrightarrow> k = length (chunks ?C ?S (unat offset + ?len))"
          by blast
        have "measure_loop cfg env rd offset ctx s =
                Some (r, s\<lparr>trace := trace s @
                  (Rdev_readat (unat offset) ?len # Vb2_digest_extend ?buf # evs)\<rparr>)"
          using step run by (simp add: emit_def)
        then show ?thesis
          using k reads full
          by (intro exI [of _ r]
              exI [of _ "Rdev_readat (unat offset) ?len # Vb2_digest_extend ?buf # evs"]
              exI [of _ "Suc k"]) (simp add: ck)
      qed
    qed
  qed
qed

lemma measure_loop_never_returns:
  assumes "measure_loop cfg env rd offset ctx s = Some y"
  shows "\<not> (2 ^ 32 \<le> region_device_sz rd \<and> (\<forall>off len. 0 \<le> fst (rdev_readat rd off len))
            \<and> extend_ok env)"
  using assms
proof (induction rule: measure_loop.raw_induct [rotated 1, consumes 1])
  case (1 loop cfg env rd offset ctx s y)
  show ?case
  proof
    assume A: "2 ^ 32 \<le> region_device_sz rd \<and> (\<forall>off len. 0 \<le> fst (rdev_readat rd off len))
            \<and> extend_ok env"
    have "unat offset < 2 ^ 32"
      using unsigned_less [of offset, where ?'a = nat] by simp
    with A have "unat offset < region_device_sz rd" by simp
    with 1(2) A obtain offset' ctx' s' where "loop cfg env rd offset' ctx' s' = Some y"
      by (simp add: Let_def extend_ok_def not_less [symmetric])
    from 1(1) [OF this] A show False by simp
  qed
qed




lemma measure_region_prologue:
  assumes "measure_prologue_ok cfg env s"
  shows "tpm_measure_region cfg env (Some rd) pcr (Some rn) s =
     (case measure_loop cfg env rd 0 (snd (vb2_digest_init env (measure_hash_alg cfg)))
             \<lparr>dev = snd (tlcl_lib_init env (dev s)),
                trace = trace s @ [Tlcl_lib_init, Vb2_digest_init (measure_hash_alg cfg)]\<rparr> of
        None \<Rightarrow> None
      | Some (Inl st, s3) \<Rightarrow> Some (Returns st, s3)
      | Some (Inr ctx', s3) \<Rightarrow>
          Some (measure_finish cfg env (uint pcr) rn (measure_hash_alg cfg)
                  (measure_digest_len cfg env) ctx' s3))"
  using assms
  by (simp add: tpm_measure_region_def measure_prologue_ok_def dev_call_eq emit_def Let_def
      case_prod_beta)

lemma measure_finish_ok:
  assumes "fst (vb2_digest_finalize env ctx dl) = 0"
  shows "measure_finish cfg env pcr rn alg dl ctx s =
     (Returns (fst (tpm_extend_pcr cfg env pcr alg (Some (snd (vb2_digest_finalize env ctx dl))) dl
                      (Some rn) (emit (Vb2_digest_finalize dl) s))),
      snd (tpm_extend_pcr cfg env pcr alg (Some (snd (vb2_digest_finalize env ctx dl))) dl
                      (Some rn) (emit (Vb2_digest_finalize dl) s)))"
  using assms by (simp add: measure_finish_def Let_def case_prod_beta)

lemma extend_all_concat:
  assumes "streaming env"
  shows "extend_all env c pieces = snd (vb2_digest_extend env c (concat pieces))"
proof (induction pieces arbitrary: c)
  case Nil
  show ?case using assms by (simp add: extend_all_def streaming_def)
next
  case (Cons p ps)
  have "extend_all env c (p # ps) = extend_all env (snd (vb2_digest_extend env c p)) ps"
    by (simp add: extend_all_def)
  also have "\<dots> = snd (vb2_digest_extend env (snd (vb2_digest_extend env c p)) (concat ps))"
    by (rule Cons.IH)
  also have "\<dots> = snd (vb2_digest_extend env c (p @ concat ps))"
    using assms by (simp add: streaming_def)
  finally show ?case by simp
qed

lemma hash_chunks_concat:
  "streaming env \<Longrightarrow> hash_chunks env alg dl pieces = hash_chunks env alg dl [concat pieces]"
  by (simp add: hash_chunks_def extend_all_concat)




text \<open>
  Claim C9. For a region whose size is below \<open>2^32\<close> and a chunk buffer of at least
  one byte, the chunk loop returns from every offset, context and state, whatever the
  reads and the hash do. The reads it has issued when it returns are the first \<open>k\<close>
  reads of the schedule from its offset, all of them when it ends normally and at least
  one when it returns early; every read of the schedule has length
  \<open>min (chunk size) (size - offset)\<close>, at least one, and starts where the previous one
  ends. An iteration entered with \<open>offset\<close> below the size issues the read of
  \<open>len = min (chunk size) (size - offset)\<close> bytes at \<open>offset\<close> and, unless the read or
  the hash fails, goes on from \<open>offset + len\<close>, which does not wrap, is strictly above
  \<open>offset\<close> and not beyond the size; with \<open>offset\<close> at or beyond the size the loop ends
  without a call.
\<close>

theorem measure_loop_terminates:
  assumes "region_device_sz rd < 2 ^ 32" and "0 < HASH_DATA_CHUNK_SIZE cfg"
  shows "(let cks = chunks (HASH_DATA_CHUNK_SIZE cfg) (region_device_sz rd) (unat offset)
          in (\<exists>r s' k. measure_loop cfg env rd offset ctx s = Some (r, s') \<and>
                k \<le> length cks \<and>
                filter is_read (drop (length (trace s)) (trace s')) =
                  map (\<lambda>(off, len). Rdev_readat off len) (take k cks) \<and>
                ((\<exists>ctx'. r = Inr ctx') \<longrightarrow> k = length cks) \<and>
                ((\<exists>st. r = Inl st) \<longrightarrow> 1 \<le> k)) \<and>
             (\<forall>(off, len) \<in> set cks.
                len = min (HASH_DATA_CHUNK_SIZE cfg) (region_device_sz rd - off) \<and> 1 \<le> len \<and>
                off + len \<le> region_device_sz rd) \<and>
             contiguous_from (unat offset) cks) \<and>
         (\<not> unat offset < region_device_sz rd \<longrightarrow>
            measure_loop cfg env rd offset ctx s = Some (Inr ctx, s)) \<and>
         (unat offset < region_device_sz rd \<longrightarrow>
            (let len = chunk_len cfg rd offset;
                 rc = fst (rdev_readat rd (unat offset) len);
                 buf = take len (snd (rdev_readat rd (unat offset) len));
                 s1 = emit (Rdev_readat (unat offset) len) s;
                 s2 = emit (Vb2_digest_extend buf) s1
             in measure_loop cfg env rd offset ctx s =
                  (if rc < 0 then Some (Inl TPM_E_READ_FAILURE, s1)
                   else if fst (vb2_digest_extend env ctx buf) \<noteq> 0
                     then Some (Inl TPM_E_HASH_ERROR, s2)
                   else measure_loop cfg env rd (offset + of_nat len)
                          (snd (vb2_digest_extend env ctx buf)) s2)) \<and>
            chunk_len cfg rd offset = min (HASH_DATA_CHUNK_SIZE cfg) (region_device_sz rd - unat offset) \<and>
            1 \<le> chunk_len cfg rd offset \<and>
            unat (offset + of_nat (chunk_len cfg rd offset)) = unat offset + chunk_len cfg rd offset \<and>
            unat offset < unat (offset + of_nat (chunk_len cfg rd offset)) \<and>
            unat (offset + of_nat (chunk_len cfg rd offset)) \<le> region_device_sz rd)"
proof (intro conjI impI)
  let ?cks = "chunks (HASH_DATA_CHUNK_SIZE cfg) (region_device_sz rd) (unat offset)"
  obtain r evs k where run: "measure_loop cfg env rd offset ctx s = Some (r, s\<lparr>trace := trace s @ evs\<rparr>)"
    and k: "k \<le> length ?cks"
    and reads: "filter is_read evs = map (\<lambda>(off, len). Rdev_readat off len) (take k ?cks)"
    and full: "(\<exists>ctx'. r = Inr ctx') \<longrightarrow> k = length ?cks"
    and part: "(\<exists>st. r = Inl st) \<longrightarrow> 1 \<le> k"
    using measure_loop_schedule [OF assms, of env offset ctx s] by blast
  have sched: "\<forall>(off, len) \<in> set ?cks.
        len = min (HASH_DATA_CHUNK_SIZE cfg) (region_device_sz rd - off) \<and> 1 \<le> len \<and>
        off + len \<le> region_device_sz rd"
    using chunks_len by fastforce
  show "let cks = ?cks
          in (\<exists>r s' k. measure_loop cfg env rd offset ctx s = Some (r, s') \<and>
                k \<le> length cks \<and>
                filter is_read (drop (length (trace s)) (trace s')) =
                  map (\<lambda>(off, len). Rdev_readat off len) (take k cks) \<and>
                ((\<exists>ctx'. r = Inr ctx') \<longrightarrow> k = length cks) \<and>
                ((\<exists>st. r = Inl st) \<longrightarrow> 1 \<le> k)) \<and>
             (\<forall>(off, len) \<in> set cks.
                len = min (HASH_DATA_CHUNK_SIZE cfg) (region_device_sz rd - off) \<and> 1 \<le> len \<and>
                off + len \<le> region_device_sz rd) \<and>
             contiguous_from (unat offset) cks"
    unfolding Let_def
  proof (intro conjI)
    show "\<exists>r s' k. measure_loop cfg env rd offset ctx s = Some (r, s') \<and>
                k \<le> length ?cks \<and>
                filter is_read (drop (length (trace s)) (trace s')) =
                  map (\<lambda>(off, len). Rdev_readat off len) (take k ?cks) \<and>
                ((\<exists>ctx'. r = Inr ctx') \<longrightarrow> k = length ?cks) \<and>
                ((\<exists>st. r = Inl st) \<longrightarrow> 1 \<le> k)"
      using run k reads full part
      by (intro exI [of _ r] exI [of _ "s\<lparr>trace := trace s @ evs\<rparr>"] exI [of _ k]) simp
    show "\<forall>(off, len) \<in> set ?cks.
        len = min (HASH_DATA_CHUNK_SIZE cfg) (region_device_sz rd - off) \<and> 1 \<le> len \<and>
        off + len \<le> region_device_sz rd"
      by (rule sched)
    show "contiguous_from (unat offset) ?cks"
      by (rule chunks_contiguous)
  qed
next
  assume "\<not> unat offset < region_device_sz rd"
  then show "measure_loop cfg env rd offset ctx s = Some (Inr ctx, s)"
    by (simp add: measure_loop_done)
next
  assume range: "unat offset < region_device_sz rd"
  show "let len = chunk_len cfg rd offset;
                 rc = fst (rdev_readat rd (unat offset) len);
                 buf = take len (snd (rdev_readat rd (unat offset) len));
                 s1 = emit (Rdev_readat (unat offset) len) s;
                 s2 = emit (Vb2_digest_extend buf) s1
             in measure_loop cfg env rd offset ctx s =
                  (if rc < 0 then Some (Inl TPM_E_READ_FAILURE, s1)
                   else if fst (vb2_digest_extend env ctx buf) \<noteq> 0
                     then Some (Inl TPM_E_HASH_ERROR, s2)
                   else measure_loop cfg env rd (offset + of_nat len)
                          (snd (vb2_digest_extend env ctx buf)) s2)"
    using range by (subst measure_loop.simps) (simp add: Let_def)
  show "chunk_len cfg rd offset = min (HASH_DATA_CHUNK_SIZE cfg) (region_device_sz rd - unat offset)"
    by (simp add: chunk_len_def)
  show len: "1 \<le> chunk_len cfg rd offset"
    using range assms(2) by (simp add: chunk_len_def)
  have "unat offset + chunk_len cfg rd offset \<le> region_device_sz rd"
    using range by (simp add: chunk_len_def)
  moreover from this show adv:
    "unat (offset + of_nat (chunk_len cfg rd offset)) = unat offset + chunk_len cfg rd offset"
    using assms(1) by (intro offset_advance) simp
  ultimately show "unat (offset + of_nat (chunk_len cfg rd offset)) \<le> region_device_sz rd"
    by simp
  show "unat offset < unat (offset + of_nat (chunk_len cfg rd offset))"
    using adv len by simp
qed

theorem measure_loop_terminates_witness:
  "region_device_sz (mem_rdev ten_bytes) < 2 ^ 32 \<and> 0 < HASH_DATA_CHUNK_SIZE tpm1_config \<and>
   chunks 4 10 8 = [(8, 2)] \<and>
   measure_loop tpm1_config (ok_collab 0 0) (mem_rdev ten_bytes) 8 [] s0 =
     Some (Inr [9, 10], \<lparr>dev = (), trace = [Rdev_readat 8 2, Vb2_digest_extend [9, 10]]\<rparr>) \<and>
   unat (8 :: u32) < region_device_sz (mem_rdev ten_bytes) \<and>
   chunk_len tpm1_config (mem_rdev ten_bytes) 8 = 2 \<and>
   unat (8 + of_nat (chunk_len tpm1_config (mem_rdev ten_bytes) 8) :: u32) = 10 \<and>
   \<not> unat (10 :: u32) < region_device_sz (mem_rdev ten_bytes) \<and>
   measure_loop tpm1_config (ok_collab 0 0) (mem_rdev ten_bytes) 10 [] s0 = Some (Inr [], s0) \<and>
   region_device_sz (failing_rdev ten_bytes 4) < 2 ^ 32 \<and>
   unat (4 :: u32) < region_device_sz (failing_rdev ten_bytes 4) \<and>
   measure_loop tpm1_config (ok_collab 0 0) (failing_rdev ten_bytes 4) 4 [] s0 =
     Some (Inl TPM_E_READ_FAILURE, \<lparr>dev = (), trace = [Rdev_readat 4 4]\<rparr>)"
proof -
  have cks: "chunks 4 10 8 = [(8, 2)]"
    by (simp add: chunks_step chunks_done)
  show ?thesis
    using measure_loop_terminates [of "mem_rdev ten_bytes" tpm1_config 8 "ok_collab 0 0" "[]" s0]
      measure_loop_terminates [of "mem_rdev ten_bytes" tpm1_config 10 "ok_collab 0 0" "[]" s0]
      measure_loop_terminates [of "failing_rdev ten_bytes 4" tpm1_config 4 "ok_collab 0 0" "[]" s0]
      cks
    by (simp add: eval_defs measure_loop_done)
qed

section \<open>The region measurement engine\<close>




text \<open>
  Claim C1 as worded fails for a region whose size does not fit the 32-bit offset: where
  \<^verbatim>\<open>size_t\<close> has 64 bits and the region has \<open>2^32\<close> bytes, the offset wraps before
  it reaches the size, the loop never ends and the extension service is never called.
\<close>

theorem measure_region_chunks_counterexample:
  "tpm_measure_region tpm1_config (ok_collab 0 0) (Some (zero_rdev (2 ^ 32))) 0 (Some ''rom'') s0
     = None"
proof -
  have "measure_loop tpm1_config (ok_collab 0 0) (zero_rdev (2 ^ 32)) 0 ctx s = None" for ctx s
    using measure_loop_never_returns [of tpm1_config "ok_collab 0 0" "zero_rdev (2 ^ 32)" 0 ctx s]
    by (cases "measure_loop tpm1_config (ok_collab 0 0) (zero_rdev (2 ^ 32)) 0 ctx s")
       (simp_all add: zero_rdev_def extend_ok_def ok_collab_def)
  moreover have "measure_prologue_ok tpm1_config (ok_collab 0 0) s0"
    by (simp add: measure_prologue_ok_def mock_defs measure_hash_alg_def measure_digest_len_def)
  ultimately show ?thesis
    by (simp add: measure_region_prologue)
qed

text \<open>
  Claim C1, amended. For every present region of size \<open>S\<close> below \<open>2^32\<close> holding
  \<open>data\<close>, with a present label, measured with a chunk size \<open>C\<close> of at least one byte,
  when the transport initializes, the digest size fits the digest buffer, the hash
  initializes and never fails to extend or to finalize, and every read inside the region
  succeeds and delivers the region's bytes: \<^verbatim>\<open>tpm_measure_region\<close> issues the reads of
  the schedule \<open>chunks C S 0\<close>, which are contiguous from offset 0, each of length
  \<open>min C (S - offset)\<close>, with lengths that sum to \<open>S\<close>; it feeds each chunk, in order,
  to the hash, and the chunks concatenated are \<open>data\<close>; the digest is the one finalized
  after these chunks, which for a hash that does not depend on the chunking is the digest
  of \<open>data\<close> fed at once; and its result is that of the one call of
  \<^verbatim>\<open>tpm_extend_pcr\<close> with that digest, which issues one extend command carrying it.
\<close>

theorem measure_region_chunks:
  assumes holds: "rdev_holds rd data"
    and small: "length data < 2 ^ 32"
    and pos: "0 < HASH_DATA_CHUNK_SIZE cfg"
    and pro: "measure_prologue_ok cfg env s"
    and ext: "extend_ok env"
    and fin: "finalize_ok env"
  shows "let alg = measure_hash_alg cfg;
             dl = measure_digest_len cfg env;
             cks = chunks (HASH_DATA_CHUNK_SIZE cfg) (length data) 0;
             digest = hash_chunks env alg dl (chunk_data data cks);
             s3 = \<lparr>dev = snd (tlcl_lib_init env (dev s)),
                   trace = trace s @ [Tlcl_lib_init, Vb2_digest_init alg] @ chunk_events data cks
                             @ [Vb2_digest_finalize dl]\<rparr>;
             r = tpm_extend_pcr cfg env (uint pcr) alg (Some digest) dl (Some rn) s3
         in tpm_measure_region cfg env (Some rd) pcr (Some rn) s = Some (Returns (fst r), snd r)
          \<and> trace (snd r) = trace s3 @ Tlcl_extend (uint pcr) (extend_algorithm cfg alg) digest dl #
               (if fst r = TPM_SUCCESS \<and> VBOOT_MEASURED_BOOT cfg
                then [Tcpa_log_add_table_entry (Some rn) (uint pcr) alg digest dl] else [])
          \<and> contiguous_from 0 cks
          \<and> (\<forall>(off, len) \<in> set cks. len = min (HASH_DATA_CHUNK_SIZE cfg) (length data - off))
          \<and> sum_list (map snd cks) = length data
          \<and> concat (chunk_data data cks) = data
          \<and> (streaming env \<longrightarrow> digest = hash_chunks env alg dl [data])"
proof -
  let ?cks = "chunks (HASH_DATA_CHUNK_SIZE cfg) (length data) 0"
  have loop: "measure_loop cfg env rd 0 ctx s' =
      Some (Inr (extend_all env ctx (chunk_data data ?cks)),
            s'\<lparr>trace := trace s' @ chunk_events data ?cks\<rparr>)" for ctx and s' :: "'a state"
    using measure_loop_reads_all [OF holds small pos ext, of 0 ctx s'] by simp
  have cat: "concat (chunk_data data ?cks) = data"
    using chunks_concat [OF pos, of 0 data] by simp
  have region: "tpm_measure_region cfg env (Some rd) pcr (Some rn) s =
      Some (measure_finish cfg env (uint pcr) rn (measure_hash_alg cfg) (measure_digest_len cfg env)
        (extend_all env (snd (vb2_digest_init env (measure_hash_alg cfg))) (chunk_data data ?cks))
        \<lparr>dev = snd (tlcl_lib_init env (dev s)),
           trace = trace s @ [Tlcl_lib_init, Vb2_digest_init (measure_hash_alg cfg)]
                     @ chunk_events data ?cks\<rparr>)"
    by (simp add: measure_region_prologue [OF pro] loop)
  have finish: "fst (vb2_digest_finalize env c n) = 0" for c n
    using fin by (simp add: finalize_ok_def)
  have sched: "\<forall>(off, len) \<in> set ?cks. len = min (HASH_DATA_CHUNK_SIZE cfg) (length data - off)"
    using chunks_len by fastforce
  have stream: "streaming env \<longrightarrow>
      hash_chunks env (measure_hash_alg cfg) (measure_digest_len cfg env) (chunk_data data ?cks)
      = hash_chunks env (measure_hash_alg cfg) (measure_digest_len cfg env) [data]"
    using hash_chunks_concat [of env _ _ "chunk_data data ?cks"] cat by simp
  show ?thesis
    unfolding Let_def
    apply (intro conjI)
          apply (simp add: region measure_finish_ok [OF finish] hash_chunks_def emit_def)
         apply (simp add: extend_pcr_issued [OF tpm_algorithm_measure])
        apply (rule chunks_contiguous)
       apply (rule sched)
      apply (simp add: chunks_sum [OF pos])
     apply (rule cat)
    apply (rule stream)
    done
qed

theorem measure_region_chunks_witness:
  "rdev_holds (mem_rdev ten_bytes) ten_bytes \<and> length ten_bytes < 2 ^ 32 \<and>
   0 < HASH_DATA_CHUNK_SIZE tpm1_config \<and> measure_prologue_ok tpm1_config (ok_collab 0 0) s0 \<and>
   extend_ok (ok_collab 0 0 :: (unit, u8 list) collab) \<and>
   finalize_ok (ok_collab 0 0 :: (unit, u8 list) collab) \<and>
   streaming (ok_collab 0 0 :: (unit, u8 list) collab) \<and>
   chunks 4 10 0 = [(0, 4), (4, 4), (8, 2)] \<and>
   tpm_measure_region tpm1_config (ok_collab 0 0) (Some (mem_rdev ten_bytes)) 0 (Some ''rom'') s0 =
     Some (Returns TPM_SUCCESS,
       \<lparr>dev = (),
          trace = [Tlcl_lib_init, Vb2_digest_init VB2_HASH_SHA1,
                   Rdev_readat 0 4, Vb2_digest_extend [1, 2, 3, 4],
                   Rdev_readat 4 4, Vb2_digest_extend [5, 6, 7, 8],
                   Rdev_readat 8 2, Vb2_digest_extend [9, 10],
                   Vb2_digest_finalize 20,
                   Tlcl_extend 0 0 (ten_bytes @ replicate 10 0) 20,
                   Tcpa_log_add_table_entry (Some ''rom'') 0 VB2_HASH_SHA1
                     (ten_bytes @ replicate 10 0) 20]\<rparr>) \<and>
   hash_chunks (ok_collab 0 0 :: (unit, u8 list) collab) VB2_HASH_SHA1 20 [ten_bytes]
     = ten_bytes @ replicate 10 0"
proof -
  have cks: "chunks 4 10 0 = [(0, 4), (4, 4), (8, 2)]"
    by (simp add: chunks_step chunks_done)
  have len: "length ten_bytes = 10" and C: "HASH_DATA_CHUNK_SIZE tpm1_config = 4"
    by (simp_all add: ten_bytes_def tpm1_config_def)
  have holds: "rdev_holds (mem_rdev ten_bytes) ten_bytes"
    by (simp add: rdev_holds_def mem_rdev_def)
  have pro: "measure_prologue_ok tpm1_config (ok_collab 0 0) s0"
    by (simp add: measure_prologue_ok_def mock_defs measure_hash_alg_def measure_digest_len_def)
  have ok: "extend_ok (ok_collab 0 0 :: (unit, u8 list) collab)"
    "finalize_ok (ok_collab 0 0 :: (unit, u8 list) collab)"
    "streaming (ok_collab 0 0 :: (unit, u8 list) collab)"
    by (simp_all add: extend_ok_def finalize_ok_def streaming_def ok_collab_def)
  note run = measure_region_chunks [of "mem_rdev ten_bytes" ten_bytes tpm1_config "ok_collab 0 0"
      s0 0 "''rom''", unfolded len C cks Let_def]
  show ?thesis
    using run holds pro ok cks
    by (simp add: eval_defs measure_hash_alg_def measure_digest_len_def
        hash_chunks_def extend_all_def tpm_extend_pcr_def tpm_algorithm_def dev_call_eq
        extend_algorithm_def chunk_events_def chunk_data_def)
qed




end
